theory Spec2Isabelle
  imports Main "HOL-Library.Word"
begin

unbundle bit_operations_syntax

section \<open>The mocked MFRC522 reader (test/libs/MFRC522.h)\<close>

text \<open>
  The class \<open>MFRC522\<close> of the unit-test library is embedded as a record of its member
  variables; every member function takes the object's state and returns what the function
  returns together with the updated state. \<open>byte\<close> is the 8-bit unsigned integer of
  Arduino, \<open>uint32_t\<close> a 32-bit word.
\<close>

type_synonym byte = "8 word"
type_synonym uint32_t = "32 word"

subsection \<open>Enumerations and structs\<close>

text \<open>The one command of \<open>PICC_Command\<close> the mock looks at, with its value.\<close>

definition PICC_CMD_MF_AUTH_KEY_A :: byte where
  "PICC_CMD_MF_AUTH_KEY_A = 0x60"

definition PICC_CMD_MF_AUTH_KEY_B :: byte where
  "PICC_CMD_MF_AUTH_KEY_B = 0x61"

datatype PICC_Type =
    PICC_TYPE_UNKNOWN
  | PICC_TYPE_ISO_14443_4
  | PICC_TYPE_ISO_18092
  | PICC_TYPE_MIFARE_MINI
  | PICC_TYPE_MIFARE_1K
  | PICC_TYPE_MIFARE_4K
  | PICC_TYPE_MIFARE_UL
  | PICC_TYPE_MIFARE_PLUS
  | PICC_TYPE_MIFARE_DESFIRE
  | PICC_TYPE_TNP3XXX
  | PICC_TYPE_NOT_COMPLETE

datatype StatusCode =
    STATUS_OK
  | STATUS_ERROR
  | STATUS_COLLISION
  | STATUS_TIMEOUT
  | STATUS_NO_ROOM
  | STATUS_INTERNAL_ERROR
  | STATUS_INVALID
  | STATUS_CRC_WRONG
  | STATUS_MIFARE_NACK

text \<open>\<open>struct Uid\<close>: the field \<open>size\<close> is named \<open>size_Uid\<close> here; \<open>uidByte\<close> is an array of 10 bytes.\<close>

record Uid =
  size_Uid :: byte
  uidByte :: "byte list"
  sak :: byte

text \<open>\<open>struct MIFARE_Key\<close>: \<open>keyByte\<close> is an array of \<open>MF_KEY_SIZE = 6\<close> bytes.\<close>

record MIFARE_Key =
  keyByte :: "byte list"

definition buffferSizeRead :: nat where
  "buffferSizeRead = 18"

definition buffferSizeWrite :: nat where
  "buffferSizeWrite = 16"

text \<open>The member variables of the class, in the order of their declaration.\<close>

record MFRC522 =
  uid :: Uid
  called_Init :: bool
  called_AntennaOff :: bool
  called_SoftPowerDown :: bool
  called_PICC_RequestA :: bool
  called_PICC_HaltA :: bool
  called_PCD_Authenticate :: bool
  t_buffer :: "byte list"
  card_is_in :: bool

text \<open>
  The object after construction: the default member initialisers set every flag to
  \<open>false\<close> and \<open>t_buffer\<close> to 18 zero bytes. The constructors do not initialise
  \<open>uid\<close>, so its value is a parameter.
\<close>

definition MFRC522_new :: "Uid \<Rightarrow> MFRC522" where
  "MFRC522_new u =
     \<lparr> uid = u,
       called_Init = False,
       called_AntennaOff = False,
       called_SoftPowerDown = False,
       called_PICC_RequestA = False,
       called_PICC_HaltA = False,
       called_PCD_Authenticate = False,
       t_buffer = replicate buffferSizeRead 0,
       card_is_in = False \<rparr>"

subsection \<open>Copying between buffers\<close>

text \<open>
  \<open>memcpy(dst, src, n)\<close> overwrites the first \<open>n\<close> bytes of \<open>dst\<close> with the first
  \<open>n\<close> bytes of \<open>src\<close>. The member array \<open>t_buffer\<close> always holds
  \<open>buffferSizeRead\<close> bytes; a buffer handed in by a caller through a pointer may be
  shorter than the number of bytes copied, which C++ leaves undefined and the model
  reports as the fault \<open>OutOfBounds\<close>.
\<close>

datatype fault = OutOfBounds

definition memcpy :: "byte list \<Rightarrow> byte list \<Rightarrow> nat \<Rightarrow> byte list" where
  "memcpy dst src n = take n src @ drop n dst"

subsection \<open>Functions for manipulating the MFRC522 and power control\<close>

definition PCD_Init :: "MFRC522 \<Rightarrow> MFRC522" where
  "PCD_Init s = s\<lparr>called_Init := True\<rparr>"

definition PCD_AntennaOff :: "MFRC522 \<Rightarrow> MFRC522" where
  "PCD_AntennaOff s = s\<lparr>called_AntennaOff := True\<rparr>"

definition PCD_SoftPowerDown :: "MFRC522 \<Rightarrow> MFRC522" where
  "PCD_SoftPowerDown s = s\<lparr>called_SoftPowerDown := True\<rparr>"

subsection \<open>Functions for communicating with PICCs\<close>

text \<open>The two pointer arguments of \<open>PICC_RequestA\<close> are never used and are left out.\<close>

definition PICC_RequestA :: "MFRC522 \<Rightarrow> StatusCode \<times> MFRC522" where
  "PICC_RequestA s =
     (if \<not> called_PCD_Authenticate s \<and> card_is_in s
      then (STATUS_OK, s\<lparr>called_PICC_RequestA := True\<rparr>)
      else (STATUS_ERROR, s\<lparr>called_PICC_RequestA := False\<rparr>))"

definition PICC_HaltA :: "MFRC522 \<Rightarrow> StatusCode \<times> MFRC522" where
  "PICC_HaltA s = (STATUS_OK, s\<lparr>called_PICC_HaltA := True\<rparr>)"

subsection \<open>Functions for communicating with MIFARE PICCs\<close>

text \<open>
  \<open>PCD_Authenticate\<close> reads the key and the \<open>Uid\<close> through the pointers it is given;
  the \<open>Uid\<close> is an argument of its own, which a caller may or may not take from the
  object.
\<close>

definition PCD_Authenticate ::
  "MFRC522 \<Rightarrow> byte \<Rightarrow> byte \<Rightarrow> MIFARE_Key \<Rightarrow> Uid \<Rightarrow> StatusCode \<times> MFRC522" where
  "PCD_Authenticate s command blockAddr key u =
     (if command = PICC_CMD_MF_AUTH_KEY_A \<and> blockAddr = 7 \<and> keyByte key ! 0 = 0xff
         \<and> size_Uid u \<noteq> 0
      then (STATUS_OK, s\<lparr>called_PCD_Authenticate := True\<rparr>)
      else (STATUS_ERROR, s\<lparr>called_PCD_Authenticate := False\<rparr>))"

definition PCD_StopCrypto1 :: "MFRC522 \<Rightarrow> MFRC522" where
  "PCD_StopCrypto1 s = s\<lparr>called_PCD_Authenticate := False\<rparr>"

text \<open>
  \<open>MIFARE_Read\<close> returns the status, the caller's buffer and the object;
  \<open>bufferSize\<close> is the byte the pointer argument points to.
\<close>

definition MIFARE_Read ::
  "MFRC522 \<Rightarrow> byte \<Rightarrow> byte list \<Rightarrow> byte \<Rightarrow> fault + (StatusCode \<times> byte list \<times> MFRC522)" where
  "MIFARE_Read s blockAddr buffer bufferSize =
     (if \<not> called_PCD_Authenticate s \<and> blockAddr \<noteq> 4 \<and> unat bufferSize \<noteq> buffferSizeRead
      then Inr (STATUS_ERROR, buffer, s)
      else if length buffer < buffferSizeRead then Inl OutOfBounds
      else Inr (STATUS_OK, memcpy buffer (t_buffer s) buffferSizeRead, s))"

definition MIFARE_Write ::
  "MFRC522 \<Rightarrow> byte \<Rightarrow> byte list \<Rightarrow> byte \<Rightarrow> fault + (StatusCode \<times> MFRC522)" where
  "MIFARE_Write s blockAddr buffer bufferSize =
     (if \<not> called_PCD_Authenticate s \<and> blockAddr \<noteq> 4 \<and> unat bufferSize \<noteq> buffferSizeWrite
      then Inr (STATUS_ERROR, s)
      else if length buffer < buffferSizeWrite then Inl OutOfBounds
      else Inr (STATUS_OK, s\<lparr>t_buffer := memcpy (t_buffer s) buffer buffferSizeWrite\<rparr>))"

definition PCD_NTAG216_AUTH :: "MFRC522 \<Rightarrow> byte list \<Rightarrow> byte list \<Rightarrow> StatusCode \<times> MFRC522" where
  "PCD_NTAG216_AUTH s passWord pACK = (STATUS_ERROR, s)"

subsection \<open>Support functions\<close>

definition PICC_GetType :: "byte \<Rightarrow> PICC_Type" where
  "PICC_GetType sak0 =
     (let sak1 = sak0 AND 0x7F in
      if sak1 = 0x04 then PICC_TYPE_NOT_COMPLETE
      else if sak1 = 0x09 then PICC_TYPE_MIFARE_MINI
      else if sak1 = 0x08 then PICC_TYPE_MIFARE_1K
      else if sak1 = 0x18 then PICC_TYPE_MIFARE_4K
      else if sak1 = 0x00 then PICC_TYPE_MIFARE_UL
      else if sak1 = 0x10 \<or> sak1 = 0x11 then PICC_TYPE_MIFARE_PLUS
      else if sak1 = 0x01 then PICC_TYPE_TNP3XXX
      else if sak1 = 0x20 then PICC_TYPE_ISO_14443_4
      else if sak1 = 0x40 then PICC_TYPE_ISO_18092
      else PICC_TYPE_UNKNOWN)"

subsection \<open>Convenience functions\<close>

text \<open>
  The loop of \<open>PICC_ReadCardSerial\<close> stores \<open>i + 1\<close> at index \<open>i\<close> of \<open>uidByte\<close>
  for \<open>i\<close> from 0 below \<open>uid.size\<close>, which is 4 at that point.
\<close>

fun fill_uidByte :: "nat \<Rightarrow> nat \<Rightarrow> byte list \<Rightarrow> byte list" where
  "fill_uidByte 0 i bs = bs"
| "fill_uidByte (Suc k) i bs = fill_uidByte k (Suc i) (bs[i := of_nat i + 1])"

definition PICC_ReadCardSerial :: "MFRC522 \<Rightarrow> bool \<times> MFRC522" where
  "PICC_ReadCardSerial s =
     (if card_is_in s \<and> called_PICC_RequestA s
      then (True,
            s\<lparr>called_PICC_RequestA := False,
              uid := \<lparr> size_Uid = 4, uidByte = fill_uidByte 4 0 (uidByte (uid s)), sak = 0x08 \<rparr>\<rparr>)
      else (False, s))"

subsection \<open>The card put on and taken off the reader\<close>

text \<open>
  The local array \<open>buffer\<close> of \<open>card_in\<close>: the four bytes of the cookie from the most
  significant one down, the five fields, and zeros up to \<open>buffferSizeRead\<close> bytes.
\<close>

definition card_in_buffer ::
  "uint32_t \<Rightarrow> byte \<Rightarrow> byte \<Rightarrow> byte \<Rightarrow> byte \<Rightarrow> byte \<Rightarrow> byte list" where
  "card_in_buffer cookie version folder mode special special2 =
     (let coockie_4 = (ucast (drop_bit 0 (cookie AND 0x000000ff)) :: byte);
          coockie_3 = (ucast (drop_bit 8 (cookie AND 0x0000ff00)) :: byte);
          coockie_2 = (ucast (drop_bit 16 (cookie AND 0x00ff0000)) :: byte);
          coockie_1 = (ucast (drop_bit 24 (cookie AND 0xff000000)) :: byte)
      in [coockie_1, coockie_2, coockie_3, coockie_4,
          version,
          folder,
          mode,
          special,
          special2,
          0x00, 0x00, 0x00, 0x00, 0x00, 0x00, 0x00, 0x00, 0x00])"

definition card_in ::
  "MFRC522 \<Rightarrow> uint32_t \<Rightarrow> byte \<Rightarrow> byte \<Rightarrow> byte \<Rightarrow> byte \<Rightarrow> byte \<Rightarrow> MFRC522" where
  "card_in s cookie version folder mode special special2 =
     s\<lparr>card_is_in := True,
       t_buffer := memcpy (t_buffer s)
                     (card_in_buffer cookie version folder mode special special2)
                     buffferSizeRead\<rparr>"

definition card_out :: "MFRC522 \<Rightarrow> MFRC522" where
  "card_out s =
     s\<lparr>card_is_in := False,
       uid := (uid s)\<lparr>size_Uid := 0, sak := 0\<rparr>,
       called_PICC_RequestA := False\<rparr>"

text \<open>
  \<open>card_decode\<close> assigns its six reference arguments; the model returns them as a tuple
  \<open>(cookie, version, folder, mode, special, special2)\<close>.
\<close>

definition card_decode :: "MFRC522 \<Rightarrow> uint32_t \<times> byte \<times> byte \<times> byte \<times> byte \<times> byte" where
  "card_decode s =
     (let cookie = push_bit 24 (ucast (t_buffer s ! 0) :: uint32_t) +
                   push_bit 16 (ucast (t_buffer s ! 1) :: uint32_t) +
                   push_bit 8 (ucast (t_buffer s ! 2) :: uint32_t) +
                   push_bit 0 (ucast (t_buffer s ! 3) :: uint32_t)
      in (cookie, t_buffer s ! 4, t_buffer s ! 5, t_buffer s ! 6, t_buffer s ! 7, t_buffer s ! 8))"

subsection \<open>A card session on concrete inputs\<close>

text \<open>
  The states of one run of the mock, used to evaluate the functions above: a fresh
  object whose \<open>uid\<close> is zero, a card put on the reader, then \<open>PICC_RequestA\<close>,
  \<open>PICC_ReadCardSerial\<close> and \<open>PCD_Authenticate\<close> with a key of six \<open>0xff\<close>
  bytes.
\<close>

definition uid_zero :: Uid where
  "uid_zero = \<lparr> size_Uid = 0, uidByte = replicate 10 0, sak = 0 \<rparr>"

definition key_ff :: MIFARE_Key where
  "key_ff = \<lparr> keyByte = [0xff, 0xff, 0xff, 0xff, 0xff, 0xff] \<rparr>"

definition key_zero :: MIFARE_Key where
  "key_zero = \<lparr> keyByte = [0, 0, 0, 0, 0, 0] \<rparr>"

definition s_present :: MFRC522 where
  "s_present = card_in (MFRC522_new uid_zero) 0x1337b347 2 1 3 0 0"

definition s_detected :: MFRC522 where
  "s_detected = snd (PICC_RequestA s_present)"

definition s_selected :: MFRC522 where
  "s_selected = snd (PICC_ReadCardSerial s_detected)"

definition s_authenticated :: MFRC522 where
  "s_authenticated =
     snd (PCD_Authenticate s_selected PICC_CMD_MF_AUTH_KEY_A 7 key_ff (uid s_selected))"

section \<open>Evaluation lemmas\<close>

lemmas buffer_sizes = buffferSizeRead_def buffferSizeWrite_def

lemma s_present_eq:
  "s_present =
     \<lparr> uid = uid_zero,
       called_Init = False,
       called_AntennaOff = False,
       called_SoftPowerDown = False,
       called_PICC_RequestA = False,
       called_PICC_HaltA = False,
       called_PCD_Authenticate = False,
       t_buffer = [0x13, 0x37, 0xb3, 0x47, 2, 1, 3, 0, 0, 0, 0, 0, 0, 0, 0, 0, 0, 0],
       card_is_in = True \<rparr>"
  by (simp add: s_present_def card_in_def MFRC522_new_def memcpy_def card_in_buffer_def
      buffferSizeRead_def)

lemma s_detected_eq: "s_detected = s_present\<lparr>called_PICC_RequestA := True\<rparr>"
  by (simp add: s_detected_def PICC_RequestA_def s_present_eq)

lemma s_selected_eq:
  "s_selected =
     s_present\<lparr>uid := \<lparr> size_Uid = 4, uidByte = [1, 2, 3, 4, 0, 0, 0, 0, 0, 0], sak = 8 \<rparr>\<rparr>"
  by (simp add: s_selected_def s_detected_eq PICC_ReadCardSerial_def s_present_eq uid_zero_def
      numeral_eq_Suc)

lemma s_authenticated_eq: "s_authenticated = s_selected\<lparr>called_PCD_Authenticate := True\<rparr>"
  by (simp add: s_authenticated_def PCD_Authenticate_def s_selected_eq key_ff_def)

lemma s_selected_fields:
  "\<not> called_PCD_Authenticate s_selected"
  "card_is_in s_selected"
  "size_Uid (uid s_selected) = 4"
  "t_buffer s_selected = [0x13, 0x37, 0xb3, 0x47, 2, 1, 3, 0, 0, 0, 0, 0, 0, 0, 0, 0, 0, 0]"
  by (simp_all add: s_selected_eq s_present_eq)

lemma s_detected_fields:
  "size_Uid (uid s_detected) = 0"
  "\<not> called_PCD_Authenticate s_detected"
  "called_PICC_RequestA s_detected"
  "card_is_in s_detected"
  by (simp_all add: s_detected_eq s_present_eq uid_zero_def)

lemma s_authenticated_fields:
  "called_PCD_Authenticate s_authenticated"
  "card_is_in s_authenticated"
  "size_Uid (uid s_authenticated) = 4"
  by (simp_all add: s_authenticated_eq s_selected_eq s_present_eq)

text \<open>The operations that store into \<open>t_buffer\<close> keep it at its 18 bytes.\<close>

lemma card_in_length:
  "length (t_buffer s) = buffferSizeRead \<Longrightarrow>
     length (t_buffer (card_in s cookie version folder mode special special2)) = buffferSizeRead"
  by (simp add: card_in_def memcpy_def card_in_buffer_def buffferSizeRead_def)

lemma MIFARE_Write_length:
  "length (t_buffer s) = buffferSizeRead \<Longrightarrow>
     MIFARE_Write s blockAddr buffer bufferSize = Inr (st, s') \<Longrightarrow>
     length (t_buffer s') = buffferSizeRead"
  by (auto simp add: MIFARE_Write_def memcpy_def buffer_sizes split: if_splits)

section \<open>Authentication before access\<close>

text \<open>
  C1 does not hold of the code. Right after \<open>PICC_ReadCardSerial\<close>, with no
  \<open>PCD_Authenticate\<close> and the authenticated flag not set, \<open>MIFARE_Read\<close> of block 7
  into an 18-byte buffer announced as 18 bytes returns \<open>STATUS_OK\<close> and hands out the
  stored block, and \<open>MIFARE_Write\<close> to block 7 of a 16-byte buffer announced as 16 bytes
  returns \<open>STATUS_OK\<close> and overwrites the stored block. The guard of both functions
  tests the flag, but joins it to the block address and the size with \<open>&&\<close>, so a
  well-formed access passes without authentication.
\<close>

theorem MIFARE_Read_Write_unauthenticated_OK:
  "\<not> called_PCD_Authenticate s_selected \<and>
   MIFARE_Read s_selected 7 (replicate 18 0) 18 =
     Inr (STATUS_OK, [0x13, 0x37, 0xb3, 0x47, 2, 1, 3, 0, 0, 0, 0, 0, 0, 0, 0, 0, 0, 0],
          s_selected) \<and>
   MIFARE_Write s_selected 7 [1, 2, 3, 4, 5, 6, 7, 8, 9, 10, 11, 12, 13, 14, 15, 16] 16 =
     Inr (STATUS_OK,
          s_selected\<lparr>t_buffer := [1, 2, 3, 4, 5, 6, 7, 8, 9, 10, 11, 12, 13, 14, 15, 16, 0, 0]\<rparr>)"
  by (simp add: MIFARE_Read_def MIFARE_Write_def s_selected_fields buffer_sizes memcpy_def)

section \<open>The block of a data record\<close>

lemma mask_byte3: "(0xff000000 :: uint32_t) = push_bit 24 (mask 8)"
  by (simp add: mask_eq_exp_minus_1)

lemma mask_byte2: "(0x00ff0000 :: uint32_t) = push_bit 16 (mask 8)"
  by (simp add: mask_eq_exp_minus_1)

lemma mask_byte1: "(0x0000ff00 :: uint32_t) = push_bit 8 (mask 8)"
  by (simp add: mask_eq_exp_minus_1)

lemma mask_byte0: "(0x000000ff :: uint32_t) = mask 8"
  by (simp add: mask_eq_exp_minus_1)

lemma cookie_byte3:
  "push_bit 24 (ucast (ucast (drop_bit 24 (c AND 0xff000000)) :: byte) :: uint32_t) =
     c AND push_bit 24 (mask 8)"
  unfolding mask_byte3 by (rule bit_word_eqI) (auto simp add: bit_simps)

lemma cookie_byte2:
  "push_bit 16 (ucast (ucast (drop_bit 16 (c AND 0x00ff0000)) :: byte) :: uint32_t) =
     c AND push_bit 16 (mask 8)"
  unfolding mask_byte2 by (rule bit_word_eqI) (auto simp add: bit_simps)

lemma cookie_byte1:
  "push_bit 8 (ucast (ucast (drop_bit 8 (c AND 0x0000ff00)) :: byte) :: uint32_t) =
     c AND push_bit 8 (mask 8)"
  unfolding mask_byte1 by (rule bit_word_eqI) (auto simp add: bit_simps)

lemma cookie_byte0:
  "push_bit 0 (ucast (ucast (drop_bit 0 (c AND 0x000000ff)) :: byte) :: uint32_t) =
     c AND mask 8"
  unfolding mask_byte0 by (rule bit_word_eqI) (auto simp add: bit_simps)

text \<open>
  The four bytes cut out of a cookie occupy disjoint bit positions, so their sum is their
  bitwise disjunction, which puts the cookie together again.
\<close>

lemma cookie_bytes:
  "push_bit 24 (ucast (ucast (drop_bit 24 (c AND 0xff000000)) :: byte) :: uint32_t) +
   push_bit 16 (ucast (ucast (drop_bit 16 (c AND 0x00ff0000)) :: byte) :: uint32_t) +
   push_bit 8 (ucast (ucast (drop_bit 8 (c AND 0x0000ff00)) :: byte) :: uint32_t) +
   push_bit 0 (ucast (ucast (drop_bit 0 (c AND 0x000000ff)) :: byte) :: uint32_t) = c"
proof -
  let ?b3 = "c AND push_bit 24 (mask 8)" and ?b2 = "c AND push_bit 16 (mask 8)"
    and ?b1 = "c AND push_bit 8 (mask 8)" and ?b0 = "c AND mask 8"
  have s1: "?b3 + ?b2 = ?b3 OR ?b2"
    by (rule disjunctive_add) (auto simp add: bit_simps)
  have s2: "(?b3 OR ?b2) + ?b1 = (?b3 OR ?b2) OR ?b1"
    by (rule disjunctive_add) (auto simp add: bit_simps)
  have s3: "((?b3 OR ?b2) OR ?b1) + ?b0 = ((?b3 OR ?b2) OR ?b1) OR ?b0"
    by (rule disjunctive_add) (auto simp add: bit_simps)
  have s4: "((?b3 OR ?b2) OR ?b1) OR ?b0 = c"
    by (rule bit_word_eqI) (auto simp add: bit_simps)
  show ?thesis
    unfolding cookie_byte3 cookie_byte2 cookie_byte1 cookie_byte0 s1 s2 s3 s4 ..
qed

text \<open>
  C2. For every data record, \<open>card_decode\<close> after \<open>card_in\<close> gives back the cookie and
  the five fields, whatever the object's state was before.
\<close>

theorem card_decode_card_in:
  "card_decode (card_in s cookie version folder mode special special2) =
     (cookie, version, folder, mode, special, special2)"
  using cookie_bytes [of cookie]
  by (simp add: card_decode_def card_in_def memcpy_def card_in_buffer_def buffferSizeRead_def)

lemma cookie_cut3:
  "(ucast (drop_bit 24 (c AND 0xff000000 :: uint32_t)) :: byte) = ucast (drop_bit 24 c)"
  unfolding mask_byte3 by (rule bit_word_eqI) (auto simp add: bit_simps)

lemma cookie_cut2:
  "(ucast (drop_bit 16 (c AND 0x00ff0000 :: uint32_t)) :: byte) = ucast (drop_bit 16 c)"
  unfolding mask_byte2 by (rule bit_word_eqI) (auto simp add: bit_simps)

lemma cookie_cut1:
  "(ucast (drop_bit 8 (c AND 0x0000ff00 :: uint32_t)) :: byte) = ucast (drop_bit 8 c)"
  unfolding mask_byte1 by (rule bit_word_eqI) (auto simp add: bit_simps)

lemma cookie_cut0:
  "(ucast (drop_bit 0 (c AND 0x000000ff :: uint32_t)) :: byte) = ucast c"
  unfolding mask_byte0 by (rule bit_word_eqI) (auto simp add: bit_simps)

lemma card_in_buffer_eq:
  "card_in_buffer cookie version folder mode special special2 =
     [ucast (drop_bit 24 cookie), ucast (drop_bit 16 cookie), ucast (drop_bit 8 cookie),
      ucast cookie, version, folder, mode, special, special2,
      0, 0, 0, 0, 0, 0, 0, 0, 0]"
  unfolding card_in_buffer_def Let_def cookie_cut3 cookie_cut2 cookie_cut1 cookie_cut0 ..

text \<open>
  C4. After \<open>card_in\<close> the 18 bytes of \<open>t_buffer\<close> are: the cookie's bits 31-24,
  23-16, 15-8 and 7-0 at positions 0 to 3 (most significant byte first), then version,
  folder, mode, special and special2 at positions 4 to 8, then zero at every position from
  9 to 17. The length of \<open>t_buffer\<close> stays 18 when it was 18, as it is in an object just
  constructed, whose whole \<open>t_buffer\<close> is then this block.
\<close>

theorem card_in_block_layout:
  "take buffferSizeRead (t_buffer (card_in s cookie version folder mode special special2)) =
     [ucast (drop_bit 24 cookie), ucast (drop_bit 16 cookie), ucast (drop_bit 8 cookie),
      ucast cookie, version, folder, mode, special, special2,
      0, 0, 0, 0, 0, 0, 0, 0, 0] \<and>
   length (t_buffer (card_in s cookie version folder mode special special2)) =
     max buffferSizeRead (length (t_buffer s)) \<and>
   t_buffer (card_in (MFRC522_new u) cookie version folder mode special special2) =
     [ucast (drop_bit 24 cookie), ucast (drop_bit 16 cookie), ucast (drop_bit 8 cookie),
      ucast cookie, version, folder, mode, special, special2,
      0, 0, 0, 0, 0, 0, 0, 0, 0]"
  by (simp add: card_in_def memcpy_def card_in_buffer_eq MFRC522_new_def buffferSizeRead_def)

section \<open>Authentication\<close>

lemma flag_cleared_same:
  "(s\<lparr>called_PCD_Authenticate := False\<rparr> = s) = (\<not> called_PCD_Authenticate s)"
  by (cases s) simp

lemma flag_set_same:
  "(s\<lparr>called_PCD_Authenticate := True\<rparr> = s) = called_PCD_Authenticate s"
  by (cases s) simp

lemma card_out_authenticated_fields:
  "size_Uid (uid (card_out s_authenticated)) = 0"
  "called_PCD_Authenticate (card_out s_authenticated)"
  by (simp_all add: card_out_def s_authenticated_fields)

text \<open>
  C3 (amended). \<open>PCD_Authenticate\<close> returns \<open>STATUS_OK\<close> exactly when the command is
  \<open>PICC_CMD_MF_AUTH_KEY_A\<close>, the block address is 7, the first key byte is \<open>0xFF\<close> and
  the \<open>Uid\<close> has a size other than 0: so never without a populated \<open>Uid\<close>, and
  whatever the state of the object is. A call that returns \<open>STATUS_OK\<close> sets the
  authenticated flag and changes nothing else, so from an authenticated state it is not
  rejected and leaves the object as it was. Every other call returns \<open>STATUS_ERROR\<close> and
  changes nothing but the authenticated flag, which it clears. With a \<open>Uid\<close> of size 0
  the call returns \<open>STATUS_ERROR\<close>; it leaves the object as it was when the flag was not
  set, and changes it when the flag was set. The flag is not set after \<open>card_out\<close> with
  \<open>PCD_StopCrypto1\<close>, nor after a \<open>PICC_RequestA\<close> that returned \<open>STATUS_OK\<close>; in
  these states, with the object's own \<open>Uid\<close> of size 0, the call leaves the object as it
  was.
\<close>

theorem PCD_Authenticate_needs_uid:
  "(fst (PCD_Authenticate s command blockAddr key u) = STATUS_OK \<longrightarrow> size_Uid u \<noteq> 0) \<and>
   (fst (PCD_Authenticate s command blockAddr key u) \<noteq> STATUS_OK \<longrightarrow>
      PCD_Authenticate s command blockAddr key u =
        (STATUS_ERROR, s\<lparr>called_PCD_Authenticate := False\<rparr>)) \<and>
   (size_Uid u = 0 \<longrightarrow> fst (PCD_Authenticate s command blockAddr key u) = STATUS_ERROR) \<and>
   (size_Uid u = 0 \<and> \<not> called_PCD_Authenticate s \<longrightarrow>
      PCD_Authenticate s command blockAddr key u = (STATUS_ERROR, s)) \<and>
   (size_Uid u = 0 \<and> called_PCD_Authenticate s \<longrightarrow>
      snd (PCD_Authenticate s command blockAddr key u) \<noteq> s) \<and>
   (fst (PCD_Authenticate s command blockAddr key u) = STATUS_OK \<longleftrightarrow>
      command = PICC_CMD_MF_AUTH_KEY_A \<and> blockAddr = 7 \<and> keyByte key ! 0 = 0xff \<and>
      size_Uid u \<noteq> 0) \<and>
   (fst (PCD_Authenticate s command blockAddr key u) = STATUS_OK \<longrightarrow>
      PCD_Authenticate s command blockAddr key u =
        (STATUS_OK, s\<lparr>called_PCD_Authenticate := True\<rparr>)) \<and>
   (called_PCD_Authenticate s \<and>
    fst (PCD_Authenticate s command blockAddr key u) = STATUS_OK \<longrightarrow>
      PCD_Authenticate s command blockAddr key u = (STATUS_OK, s)) \<and>
   fst (PCD_Authenticate s' command blockAddr key u) =
     fst (PCD_Authenticate s command blockAddr key u) \<and>
   PCD_Authenticate (PCD_StopCrypto1 (card_out s)) command blockAddr key
       (uid (PCD_StopCrypto1 (card_out s))) =
     (STATUS_ERROR, PCD_StopCrypto1 (card_out s)) \<and>
   (size_Uid (uid s) = 0 \<and> fst (PICC_RequestA s) = STATUS_OK \<longrightarrow>
      PCD_Authenticate (snd (PICC_RequestA s)) command blockAddr key
          (uid (snd (PICC_RequestA s))) =
        (STATUS_ERROR, snd (PICC_RequestA s)))"
proof -
  have general:
    "(fst (PCD_Authenticate s command blockAddr key u) = STATUS_OK \<longrightarrow> size_Uid u \<noteq> 0) \<and>
     (fst (PCD_Authenticate s command blockAddr key u) \<noteq> STATUS_OK \<longrightarrow>
        PCD_Authenticate s command blockAddr key u =
          (STATUS_ERROR, s\<lparr>called_PCD_Authenticate := False\<rparr>)) \<and>
     (size_Uid u = 0 \<longrightarrow> fst (PCD_Authenticate s command blockAddr key u) = STATUS_ERROR) \<and>
     (size_Uid u = 0 \<and> \<not> called_PCD_Authenticate s \<longrightarrow>
        PCD_Authenticate s command blockAddr key u = (STATUS_ERROR, s)) \<and>
     (size_Uid u = 0 \<and> called_PCD_Authenticate s \<longrightarrow>
        snd (PCD_Authenticate s command blockAddr key u) \<noteq> s)"
    by (simp add: PCD_Authenticate_def flag_cleared_same)
  have arguments:
    "(fst (PCD_Authenticate s command blockAddr key u) = STATUS_OK \<longleftrightarrow>
        command = PICC_CMD_MF_AUTH_KEY_A \<and> blockAddr = 7 \<and> keyByte key ! 0 = 0xff \<and>
        size_Uid u \<noteq> 0) \<and>
     (fst (PCD_Authenticate s command blockAddr key u) = STATUS_OK \<longrightarrow>
        PCD_Authenticate s command blockAddr key u =
          (STATUS_OK, s\<lparr>called_PCD_Authenticate := True\<rparr>)) \<and>
     (called_PCD_Authenticate s \<and>
      fst (PCD_Authenticate s command blockAddr key u) = STATUS_OK \<longrightarrow>
        PCD_Authenticate s command blockAddr key u = (STATUS_OK, s)) \<and>
     fst (PCD_Authenticate s' command blockAddr key u) =
       fst (PCD_Authenticate s command blockAddr key u)"
    by (simp add: PCD_Authenticate_def flag_set_same)
  have absent:
    "PCD_Authenticate (PCD_StopCrypto1 (card_out s)) command blockAddr key
         (uid (PCD_StopCrypto1 (card_out s))) =
       (STATUS_ERROR, PCD_StopCrypto1 (card_out s))"
    by (simp add: PCD_Authenticate_def PCD_StopCrypto1_def card_out_def)
  have detected:
    "size_Uid (uid s) = 0 \<and> fst (PICC_RequestA s) = STATUS_OK \<longrightarrow>
       PCD_Authenticate (snd (PICC_RequestA s)) command blockAddr key
           (uid (snd (PICC_RequestA s))) =
         (STATUS_ERROR, snd (PICC_RequestA s))"
    by (simp add: PCD_Authenticate_def PICC_RequestA_def flag_cleared_same)
  from general arguments absent detected show ?thesis
    by blast
qed

text \<open>
  The amended C3 on the run: after \<open>PICC_RequestA\<close> alone the \<open>Uid\<close> has size 0 and
  the flag is not set, and the call with the right command, block and key fails and leaves
  the object unchanged; after \<open>card_out\<close> in the authenticated state the \<open>Uid\<close> has
  size 0 and the flag is still set, and the failing call changes the object; in the
  authenticated state the call with the right key returns \<open>STATUS_OK\<close> and leaves the
  object unchanged.
\<close>

theorem PCD_Authenticate_needs_uid_witness:
  "size_Uid (uid s_present) = 0 \<and> fst (PICC_RequestA s_present) = STATUS_OK \<and>
   snd (PICC_RequestA s_present) = s_detected \<and>
   size_Uid (uid s_detected) = 0 \<and> \<not> called_PCD_Authenticate s_detected \<and>
   PCD_Authenticate s_detected PICC_CMD_MF_AUTH_KEY_A 7 key_ff (uid s_detected) =
     (STATUS_ERROR, s_detected) \<and>
   size_Uid (uid (card_out s_authenticated)) = 0 \<and>
   called_PCD_Authenticate (card_out s_authenticated) \<and>
   fst (PCD_Authenticate (card_out s_authenticated) PICC_CMD_MF_AUTH_KEY_A 7 key_ff
          (uid (card_out s_authenticated))) = STATUS_ERROR \<and>
   snd (PCD_Authenticate (card_out s_authenticated) PICC_CMD_MF_AUTH_KEY_A 7 key_ff
          (uid (card_out s_authenticated))) \<noteq> card_out s_authenticated \<and>
   called_PCD_Authenticate s_authenticated \<and>
   size_Uid (uid s_authenticated) \<noteq> 0 \<and>
   keyByte key_ff ! 0 = 0xff \<and>
   PCD_Authenticate s_authenticated PICC_CMD_MF_AUTH_KEY_A 7 key_ff (uid s_authenticated) =
     (STATUS_OK, s_authenticated)"
proof -
  have p: "size_Uid (uid s_present) = 0"
    by (simp add: s_present_eq uid_zero_def)
  have q: "fst (PICC_RequestA s_present) = STATUS_OK"
    and r: "snd (PICC_RequestA s_present) = s_detected"
    by (simp_all add: PICC_RequestA_def s_detected_eq s_present_eq)
  have a: "size_Uid (uid s_detected) = 0" and b: "\<not> called_PCD_Authenticate s_detected"
    by (simp_all add: s_detected_fields)
  have c: "size_Uid (uid (card_out s_authenticated)) = 0"
    and d: "called_PCD_Authenticate (card_out s_authenticated)"
    by (simp_all add: card_out_authenticated_fields)
  have e: "called_PCD_Authenticate s_authenticated"
    and f: "size_Uid (uid s_authenticated) \<noteq> 0"
    by (simp_all add: s_authenticated_fields)
  have k: "keyByte key_ff ! 0 = 0xff"
    by (simp add: key_ff_def)
  from PCD_Authenticate_needs_uid
    [of s_present PICC_CMD_MF_AUTH_KEY_A 7 key_ff "uid s_present"] p q
  have 1: "PCD_Authenticate s_detected PICC_CMD_MF_AUTH_KEY_A 7 key_ff (uid s_detected) =
      (STATUS_ERROR, s_detected)"
    unfolding r by blast
  from PCD_Authenticate_needs_uid
    [of "card_out s_authenticated" PICC_CMD_MF_AUTH_KEY_A 7 key_ff
      "uid (card_out s_authenticated)"] c d
  have 2: "fst (PCD_Authenticate (card_out s_authenticated) PICC_CMD_MF_AUTH_KEY_A 7 key_ff
          (uid (card_out s_authenticated))) = STATUS_ERROR"
    and 3: "snd (PCD_Authenticate (card_out s_authenticated) PICC_CMD_MF_AUTH_KEY_A 7 key_ff
          (uid (card_out s_authenticated))) \<noteq> card_out s_authenticated"
    by blast+
  from PCD_Authenticate_needs_uid
    [of s_authenticated PICC_CMD_MF_AUTH_KEY_A 7 key_ff "uid s_authenticated"] e f k
  have 4: "PCD_Authenticate s_authenticated PICC_CMD_MF_AUTH_KEY_A 7 key_ff
      (uid s_authenticated) = (STATUS_OK, s_authenticated)"
    by blast
  from p q r a b c d e f k 1 2 3 4 show ?thesis
    by blast
qed

text \<open>
  C3 as stated fails in an authenticated state: there \<open>PCD_Authenticate\<close> with the right
  key returns \<open>STATUS_OK\<close> again, not a failure status, and with a wrong key it returns
  \<open>STATUS_ERROR\<close> and clears the authenticated flag, which changes the state.
\<close>

theorem PCD_Authenticate_authenticated_counterexample:
  "called_PCD_Authenticate s_authenticated \<and>
   PCD_Authenticate s_authenticated PICC_CMD_MF_AUTH_KEY_A 7 key_ff (uid s_authenticated) =
     (STATUS_OK, s_authenticated) \<and>
   PCD_Authenticate s_authenticated PICC_CMD_MF_AUTH_KEY_A 7 key_zero (uid s_authenticated) =
     (STATUS_ERROR, s_selected) \<and>
   s_selected \<noteq> s_authenticated"
  by (simp add: PCD_Authenticate_def key_ff_def key_zero_def s_authenticated_eq s_selected_eq
      s_present_eq)

section \<open>Classification of the SAK byte\<close>

lemma PICC_GetType_default:
  "sak0 AND 0x7F \<notin> {0x04, 0x09, 0x08, 0x18, 0x00, 0x10, 0x11, 0x01, 0x20, 0x40}
   \<Longrightarrow> PICC_GetType sak0 = PICC_TYPE_UNKNOWN"
  by (simp add: PICC_GetType_def Let_def)

lemma PICC_GetType_range:
  "PICC_GetType sak0 \<in> {PICC_TYPE_UNKNOWN, PICC_TYPE_ISO_14443_4, PICC_TYPE_ISO_18092,
     PICC_TYPE_MIFARE_MINI, PICC_TYPE_MIFARE_1K, PICC_TYPE_MIFARE_4K, PICC_TYPE_MIFARE_UL,
     PICC_TYPE_MIFARE_PLUS, PICC_TYPE_TNP3XXX, PICC_TYPE_NOT_COMPLETE}"
  by (simp add: PICC_GetType_def Let_def)

lemma sak_mask_or: "((s :: byte) OR 0x80) AND 0x7F = s AND 0x7F"
proof -
  have "(s OR 0x80) AND 0x7F = (s AND 0x7F) OR (0x80 AND 0x7F)"
    by (simp add: bit.conj_disj_distrib2)
  also have "(0x80 AND 0x7F :: byte) = 0"
    by simp
  finally show ?thesis
    by simp
qed

lemma sak_mask_idem: "((s :: byte) AND 0x7F) AND 0x7F = s AND 0x7F"
  by (simp add: and.assoc)

text \<open>
  C5. \<open>PICC_GetType\<close> is a function of the SAK byte alone; it maps \<open>0x08\<close> to
  MIFARE 1K, \<open>0x18\<close> to MIFARE 4K, \<open>0x00\<close> to MIFARE Ultralight, \<open>0x04\<close> to
  "UID not complete" and \<open>0xFF\<close> to unknown. Every byte gets one of ten types, and a byte
  that matches no case of the switch after masking gets the unknown type.
\<close>

theorem PICC_GetType_classes:
  "PICC_GetType 0x08 = PICC_TYPE_MIFARE_1K \<and>
   PICC_GetType 0x18 = PICC_TYPE_MIFARE_4K \<and>
   PICC_GetType 0x00 = PICC_TYPE_MIFARE_UL \<and>
   PICC_GetType 0x04 = PICC_TYPE_NOT_COMPLETE \<and>
   PICC_GetType 0xFF = PICC_TYPE_UNKNOWN \<and>
   PICC_GetType sak0 \<in> {PICC_TYPE_UNKNOWN, PICC_TYPE_ISO_14443_4, PICC_TYPE_ISO_18092,
     PICC_TYPE_MIFARE_MINI, PICC_TYPE_MIFARE_1K, PICC_TYPE_MIFARE_4K, PICC_TYPE_MIFARE_UL,
     PICC_TYPE_MIFARE_PLUS, PICC_TYPE_TNP3XXX, PICC_TYPE_NOT_COMPLETE} \<and>
   (sak0 AND 0x7F \<notin> {0x04, 0x09, 0x08, 0x18, 0x00, 0x10, 0x11, 0x01, 0x20, 0x40} \<longrightarrow>
      PICC_GetType sak0 = PICC_TYPE_UNKNOWN)"
proof -
  have "PICC_GetType 0x08 = PICC_TYPE_MIFARE_1K"
    by (simp add: PICC_GetType_def)
  moreover have "PICC_GetType 0x18 = PICC_TYPE_MIFARE_4K"
    by (simp add: PICC_GetType_def)
  moreover have "PICC_GetType 0x00 = PICC_TYPE_MIFARE_UL"
    by (simp add: PICC_GetType_def)
  moreover have "PICC_GetType 0x04 = PICC_TYPE_NOT_COMPLETE"
    by (simp add: PICC_GetType_def)
  moreover have "PICC_GetType 0xFF = PICC_TYPE_UNKNOWN"
    by (simp add: PICC_GetType_def)
  ultimately show ?thesis
    using PICC_GetType_default [of sak0] PICC_GetType_range [of sak0] by blast
qed

text \<open>C5 at the byte \<open>0x7F\<close>, which matches no case.\<close>

theorem PICC_GetType_classes_witness:
  "(0x7F :: byte) AND 0x7F \<notin> {0x04, 0x09, 0x08, 0x18, 0x00, 0x10, 0x11, 0x01, 0x20, 0x40} \<and>
   PICC_GetType 0x7F = PICC_TYPE_UNKNOWN"
  using PICC_GetType_classes [of "0x7F"] by simp

text \<open>
  C9. \<open>PICC_GetType\<close> does not look at bit 7 of the SAK byte: setting it or clearing it
  gives the same type. A byte whose lower seven bits match no case gets the unknown type,
  with the bit set as well as without.
\<close>

theorem PICC_GetType_ignores_top_bit:
  "PICC_GetType (s OR 0x80) = PICC_GetType s \<and>
   PICC_GetType (s AND 0x7F) = PICC_GetType s \<and>
   (s AND 0x7F \<notin> {0x04, 0x09, 0x08, 0x18, 0x00, 0x10, 0x11, 0x01, 0x20, 0x40} \<longrightarrow>
      PICC_GetType (s OR 0x80) = PICC_TYPE_UNKNOWN \<and> PICC_GetType s = PICC_TYPE_UNKNOWN)"
proof -
  have a: "PICC_GetType (s OR 0x80) = PICC_GetType s"
    unfolding PICC_GetType_def sak_mask_or ..
  have b: "PICC_GetType (s AND 0x7F) = PICC_GetType s"
    unfolding PICC_GetType_def sak_mask_idem ..
  show ?thesis
    using a b PICC_GetType_default [of s] by simp
qed

text \<open>C9 at \<open>0x55\<close>, which matches no case, and at \<open>0x08\<close>, the SAK of a MIFARE 1K.\<close>

theorem PICC_GetType_ignores_top_bit_witness:
  "(0x55 :: byte) AND 0x7F \<notin> {0x04, 0x09, 0x08, 0x18, 0x00, 0x10, 0x11, 0x01, 0x20, 0x40} \<and>
   PICC_GetType (0x55 OR 0x80) = PICC_TYPE_UNKNOWN \<and> PICC_GetType 0x55 = PICC_TYPE_UNKNOWN \<and>
   PICC_GetType (0x08 OR 0x80) = PICC_GetType 0x08 \<and> PICC_GetType 0x08 = PICC_TYPE_MIFARE_1K"
proof -
  have "PICC_GetType 0x08 = PICC_TYPE_MIFARE_1K"
    by (simp add: PICC_GetType_def)
  then show ?thesis
    using PICC_GetType_ignores_top_bit [of "0x55"] PICC_GetType_ignores_top_bit [of "0x08"]
    by simp
qed

section \<open>Detection and the end of a session\<close>

text \<open>
  C10. While the authenticated flag is set, \<open>PICC_RequestA\<close> returns \<open>STATUS_ERROR\<close>
  and clears \<open>called_PICC_RequestA\<close>, whether a card is on the reader or not. It returns
  \<open>STATUS_OK\<close> exactly when the authenticated flag is not set and a card is on the
  reader, and then sets \<open>called_PICC_RequestA\<close>; every other call returns
  \<open>STATUS_ERROR\<close> and clears it.
\<close>

theorem PICC_RequestA_authenticated:
  "(called_PCD_Authenticate s \<longrightarrow>
      PICC_RequestA s = (STATUS_ERROR, s\<lparr>called_PICC_RequestA := False\<rparr>)) \<and>
   (fst (PICC_RequestA s) = STATUS_OK \<longleftrightarrow> \<not> called_PCD_Authenticate s \<and> card_is_in s) \<and>
   (fst (PICC_RequestA s) = STATUS_OK \<longrightarrow> called_PICC_RequestA (snd (PICC_RequestA s))) \<and>
   (fst (PICC_RequestA s) \<noteq> STATUS_OK \<longrightarrow>
      PICC_RequestA s = (STATUS_ERROR, s\<lparr>called_PICC_RequestA := False\<rparr>))"
  by (simp add: PICC_RequestA_def)

text \<open>C10 in the authenticated state of the run, where the card is on the reader.\<close>

theorem PICC_RequestA_authenticated_witness:
  "called_PCD_Authenticate s_authenticated \<and> card_is_in s_authenticated \<and>
   PICC_RequestA s_authenticated =
     (STATUS_ERROR, s_authenticated\<lparr>called_PICC_RequestA := False\<rparr>) \<and>
   fst (PICC_RequestA s_authenticated) \<noteq> STATUS_OK"
proof -
  have a: "called_PCD_Authenticate s_authenticated" and b: "card_is_in s_authenticated"
    by (simp_all add: s_authenticated_fields)
  from PICC_RequestA_authenticated [of s_authenticated] a b show ?thesis
    by blast
qed

text \<open>
  C7. Taking the card off (\<open>card_out\<close>) and stopping the encryption
  (\<open>PCD_StopCrypto1\<close>), in either order and from any state, leaves \<open>uid.size\<close> and
  \<open>uid.sak\<close> at 0 and the flags \<open>card_is_in\<close>, \<open>called_PICC_RequestA\<close> and
  \<open>called_PCD_Authenticate\<close> cleared; doing both a second time changes nothing.
\<close>

theorem card_out_StopCrypto1_absent:
  "size_Uid (uid (PCD_StopCrypto1 (card_out s))) = 0 \<and>
   sak (uid (PCD_StopCrypto1 (card_out s))) = 0 \<and>
   \<not> card_is_in (PCD_StopCrypto1 (card_out s)) \<and>
   \<not> called_PICC_RequestA (PCD_StopCrypto1 (card_out s)) \<and>
   \<not> called_PCD_Authenticate (PCD_StopCrypto1 (card_out s)) \<and>
   PCD_StopCrypto1 (card_out (PCD_StopCrypto1 (card_out s))) = PCD_StopCrypto1 (card_out s) \<and>
   card_out (PCD_StopCrypto1 s) = PCD_StopCrypto1 (card_out s)"
  by (simp add: PCD_StopCrypto1_def card_out_def)

section \<open>Block 4 and the write-read scenario\<close>

text \<open>
  C8. For block address 4, \<open>MIFARE_Read\<close> and \<open>MIFARE_Write\<close> never return a status
  other than \<open>STATUS_OK\<close>, in any state and whatever buffer size is announced: given a
  buffer that holds the 18 bytes a read copies, or the 16 bytes a write copies, they return
  \<open>STATUS_OK\<close> and do the copy, also when no authentication has succeeded.
\<close>

theorem MIFARE_block4_bypass:
  "(\<forall>st b s'. MIFARE_Read s 4 buffer bufferSize = Inr (st, b, s') \<longrightarrow> st = STATUS_OK) \<and>
   (\<forall>st s'. MIFARE_Write s 4 buffer bufferSize = Inr (st, s') \<longrightarrow> st = STATUS_OK) \<and>
   (buffferSizeRead \<le> length buffer \<longrightarrow>
      MIFARE_Read s 4 buffer bufferSize =
        Inr (STATUS_OK, take buffferSizeRead (t_buffer s) @ drop buffferSizeRead buffer, s)) \<and>
   (buffferSizeWrite \<le> length buffer \<longrightarrow>
      MIFARE_Write s 4 buffer bufferSize =
        Inr (STATUS_OK,
             s\<lparr>t_buffer := take buffferSizeWrite buffer @ drop buffferSizeWrite (t_buffer s)\<rparr>))"
  by (simp add: MIFARE_Read_def MIFARE_Write_def memcpy_def)

text \<open>
  C8 right after \<open>PICC_ReadCardSerial\<close>, with no authentication and an 18-byte buffer:
  the read of block 4 hands out the stored block, the write replaces its first 16 bytes.
\<close>

theorem MIFARE_block4_bypass_witness:
  "\<not> called_PCD_Authenticate s_selected \<and>
   buffferSizeRead \<le>
     length [1, 2, 3, 4, 5, 6, 7, 8, 9, 10, 11, 12, 13, 14, 15, 16, 17, 18 :: byte] \<and>
   buffferSizeWrite \<le>
     length [1, 2, 3, 4, 5, 6, 7, 8, 9, 10, 11, 12, 13, 14, 15, 16, 17, 18 :: byte] \<and>
   MIFARE_Read s_selected 4 [1, 2, 3, 4, 5, 6, 7, 8, 9, 10, 11, 12, 13, 14, 15, 16, 17, 18] 16 =
     Inr (STATUS_OK, [0x13, 0x37, 0xb3, 0x47, 2, 1, 3, 0, 0, 0, 0, 0, 0, 0, 0, 0, 0, 0],
          s_selected) \<and>
   MIFARE_Write s_selected 4 [1, 2, 3, 4, 5, 6, 7, 8, 9, 10, 11, 12, 13, 14, 15, 16, 17, 18] 18 =
     Inr (STATUS_OK,
          s_selected\<lparr>t_buffer := [1, 2, 3, 4, 5, 6, 7, 8, 9, 10, 11, 12, 13, 14, 15, 16, 0, 0]\<rparr>)"
proof -
  let ?b = "[1, 2, 3, 4, 5, 6, 7, 8, 9, 10, 11, 12, 13, 14, 15, 16, 17, 18 :: byte]"
  have a: "\<not> called_PCD_Authenticate s_selected"
    by (simp add: s_selected_fields)
  have r: "buffferSizeRead \<le> length ?b" and w: "buffferSizeWrite \<le> length ?b"
    by (simp_all add: buffer_sizes)
  have tr: "take buffferSizeRead (t_buffer s_selected) @ drop buffferSizeRead ?b =
      [0x13, 0x37, 0xb3, 0x47, 2, 1, 3, 0, 0, 0, 0, 0, 0, 0, 0, 0, 0, 0]"
    by (simp add: s_selected_fields buffer_sizes)
  have tw: "take buffferSizeWrite ?b @ drop buffferSizeWrite (t_buffer s_selected) =
      [1, 2, 3, 4, 5, 6, 7, 8, 9, 10, 11, 12, 13, 14, 15, 16, 0, 0]"
    by (simp add: s_selected_fields buffer_sizes)
  from MIFARE_block4_bypass [of s_selected ?b 16] r
  have "MIFARE_Read s_selected 4 ?b 16 =
      Inr (STATUS_OK, take buffferSizeRead (t_buffer s_selected) @ drop buffferSizeRead ?b,
           s_selected)"
    by blast
  moreover from MIFARE_block4_bypass [of s_selected ?b 18] w
  have "MIFARE_Write s_selected 4 ?b 18 =
      Inr (STATUS_OK, s_selected\<lparr>t_buffer :=
        take buffferSizeWrite ?b @ drop buffferSizeWrite (t_buffer s_selected)\<rparr>)"
    by blast
  ultimately show ?thesis
    unfolding tr tw using a r w by blast
qed

lemma card_in_buffer_example:
  "card_in_buffer 0x12345678 1 3 1 0 0 =
     [0x12, 0x34, 0x56, 0x78, 1, 3, 1, 0, 0, 0, 0, 0, 0, 0, 0, 0, 0, 0]"
  by (simp add: card_in_buffer_def)

lemma PCD_Authenticate_OK:
  "PCD_Authenticate s command blockAddr key u = (STATUS_OK, s') \<Longrightarrow>
     s' = s\<lparr>called_PCD_Authenticate := True\<rparr>"
  by (auto simp add: PCD_Authenticate_def split: if_splits)

lemma PICC_ReadCardSerial_True:
  "PICC_ReadCardSerial s = (True, s') \<Longrightarrow> size_Uid (uid s') = 4 \<and> sak (uid s') = 0x08"
  by (auto simp add: PICC_ReadCardSerial_def split: if_splits)

text \<open>
  C6. Let \<open>PICC_RequestA\<close> return \<open>STATUS_OK\<close>, then \<open>PICC_ReadCardSerial\<close> return
  true, then \<open>PCD_Authenticate\<close> for block 7 with key A and a key whose first byte is
  \<open>0xFF\<close> return \<open>STATUS_OK\<close>. Then the SAK is \<open>0x08\<close>; writing to block 7 the 16
  bytes of the record with cookie \<open>0x12345678\<close>, version 1, folder 3, mode 1, special 0
  and special2 0 returns \<open>STATUS_OK\<close>; and a read of block 7 into an 18-byte buffer
  returns \<open>STATUS_OK\<close> with a buffer that starts with the nine bytes of the record and
  that \<open>card_decode\<close>, which decodes \<open>t_buffer\<close>, turns into the record written, as it
  does the stored block itself.
\<close>

theorem write_read_scenario:
  assumes detect: "PICC_RequestA s0 = (STATUS_OK, s1)"
    and select: "PICC_ReadCardSerial s1 = (True, s2)"
    and key: "keyByte key ! 0 = 0xff"
    and auth: "PCD_Authenticate s2 PICC_CMD_MF_AUTH_KEY_A 7 key (uid s2) = (STATUS_OK, s3)"
  shows "sak (uid s2) = 0x08 \<and>
    (\<exists>s4 buffer.
       MIFARE_Write s3 7 (take buffferSizeWrite (card_in_buffer 0x12345678 1 3 1 0 0)) 16 =
         Inr (STATUS_OK, s4) \<and>
       MIFARE_Read s4 7 (replicate 18 0) 18 = Inr (STATUS_OK, buffer, s4) \<and>
       take 9 buffer = [0x12, 0x34, 0x56, 0x78, 1, 3, 1, 0, 0] \<and>
       card_decode (s4\<lparr>t_buffer := buffer\<rparr>) = (0x12345678, 1, 3, 1, 0, 0) \<and>
       card_decode s4 = (0x12345678, 1, 3, 1, 0, 0))"
proof -
  let ?w = "take buffferSizeWrite (card_in_buffer 0x12345678 1 3 1 0 0)"
  define s4 where "s4 = s3\<lparr>t_buffer := memcpy (t_buffer s3) ?w buffferSizeWrite\<rparr>"
  define buffer where "buffer = memcpy (replicate 18 0) (t_buffer s4) buffferSizeRead"
  have w: "?w = [0x12, 0x34, 0x56, 0x78, 1, 3, 1, 0, 0, 0, 0, 0, 0, 0, 0, 0]"
    by (simp add: card_in_buffer_example buffferSizeWrite_def)
  have sak: "sak (uid s2) = 0x08"
    using PICC_ReadCardSerial_True [OF select] by simp
  have auth3: "called_PCD_Authenticate s3"
    using PCD_Authenticate_OK [OF auth] by simp
  have auth4: "called_PCD_Authenticate s4"
    using auth3 by (simp add: s4_def)
  have wr: "MIFARE_Write s3 7 ?w 16 = Inr (STATUS_OK, s4)"
    unfolding MIFARE_Write_def s4_def using auth3
    by (simp add: card_in_buffer_example buffferSizeWrite_def)
  have rd: "MIFARE_Read s4 7 (replicate 18 0) 18 = Inr (STATUS_OK, buffer, s4)"
    unfolding MIFARE_Read_def buffer_def using auth4 by (simp add: buffferSizeRead_def)
  have tb: "t_buffer s4 =
      [0x12, 0x34, 0x56, 0x78, 1, 3, 1, 0, 0, 0, 0, 0, 0, 0, 0, 0] @ drop 16 (t_buffer s3)"
    unfolding s4_def w by (simp add: memcpy_def buffferSizeWrite_def)
  have bf: "buffer =
      [0x12, 0x34, 0x56, 0x78, 1, 3, 1, 0, 0, 0, 0, 0, 0, 0, 0, 0] @
      take 2 (drop 16 (t_buffer s3))"
    unfolding buffer_def tb by (simp add: memcpy_def buffferSizeRead_def)
  have t9: "take 9 buffer = [0x12, 0x34, 0x56, 0x78, 1, 3, 1, 0, 0]"
    unfolding bf by simp
  have d4: "card_decode s4 = (0x12345678, 1, 3, 1, 0, 0)"
    unfolding card_decode_def tb by simp
  have db: "card_decode (s4\<lparr>t_buffer := buffer\<rparr>) = (0x12345678, 1, 3, 1, 0, 0)"
    unfolding card_decode_def bf by simp
  from sak wr rd t9 d4 db show ?thesis
    by blast
qed

text \<open>
  C6 on the run that starts from a fresh object with a card of another record on it: each
  of the three steps succeeds there, so the write and the read do what C6 says.
\<close>

theorem write_read_scenario_witness:
  "PICC_RequestA s_present = (STATUS_OK, s_detected) \<and>
   PICC_ReadCardSerial s_detected = (True, s_selected) \<and>
   keyByte key_ff ! 0 = 0xff \<and>
   PCD_Authenticate s_selected PICC_CMD_MF_AUTH_KEY_A 7 key_ff (uid s_selected) =
     (STATUS_OK, s_authenticated) \<and>
   sak (uid s_selected) = 0x08 \<and>
   (\<exists>s4 buffer.
      MIFARE_Write s_authenticated 7
        (take buffferSizeWrite (card_in_buffer 0x12345678 1 3 1 0 0)) 16 = Inr (STATUS_OK, s4) \<and>
      MIFARE_Read s4 7 (replicate 18 0) 18 = Inr (STATUS_OK, buffer, s4) \<and>
      take 9 buffer = [0x12, 0x34, 0x56, 0x78, 1, 3, 1, 0, 0] \<and>
      card_decode (s4\<lparr>t_buffer := buffer\<rparr>) = (0x12345678, 1, 3, 1, 0, 0) \<and>
      card_decode s4 = (0x12345678, 1, 3, 1, 0, 0))"
proof -
  have detect: "PICC_RequestA s_present = (STATUS_OK, s_detected)"
    by (simp add: PICC_RequestA_def s_detected_eq s_present_eq)
  have select: "PICC_ReadCardSerial s_detected = (True, s_selected)"
    by (simp add: PICC_ReadCardSerial_def s_selected_def s_detected_eq s_present_eq)
  have key: "keyByte key_ff ! 0 = 0xff"
    by (simp add: key_ff_def)
  have auth: "PCD_Authenticate s_selected PICC_CMD_MF_AUTH_KEY_A 7 key_ff (uid s_selected) =
      (STATUS_OK, s_authenticated)"
    by (simp add: PCD_Authenticate_def s_authenticated_def key s_selected_fields)
  from write_read_scenario [OF detect select key auth] detect select key auth show ?thesis
    by blast
qed

end
